theory Spec2Isabelle
  imports
    Complex_Main
    "HOL-Library.Multiset"
    "HOL-Library.Sublist"
    "HOL-Library.Char_ord"
    "HOL-Library.List_Lexorder"
begin

section \<open>models/client\_model.py: the record entity\<close>

text \<open>
  The dataclass \<^verbatim>\<open>Client\<close>, with the types its annotations declare. A Python
  \<^verbatim>\<open>str\<close> is a \<^typ>\<open>string\<close> (one \<^typ>\<open>char\<close> per character), the
  optional identifier an \<^typ>\<open>int option\<close>, and the credit, which the code only stores
  and reads back, a \<^typ>\<open>real\<close> (a finite float).
\<close>

record Client =
  idclient :: "int option"
  nom_client :: string
  numero_telephone :: string
  adresse :: string
  code_postal :: string
  ville :: string
  date_naissance :: string
  credit_disponible :: real
  bon_client :: bool
  couleur_cheveux :: string

text \<open>
  The nine values bound to an \<^verbatim>\<open>INSERT\<close> or an \<^verbatim>\<open>UPDATE\<close>, in the order the
  tuples of the source list them.
\<close>

type_synonym valeurs =
  "string \<times> string \<times> string \<times> string \<times> string \<times> string \<times> real \<times> int \<times> string"

definition en_tuple_insertion :: "Client \<Rightarrow> valeurs" where
  "en_tuple_insertion c =
     (nom_client c, numero_telephone c, adresse c, code_postal c, ville c,
      date_naissance c, credit_disponible c, (if bon_client c then 1 else 0),
      couleur_cheveux c)"

definition en_tuple_modification :: "Client \<Rightarrow> valeurs \<times> int option" where
  "en_tuple_modification c =
     ((nom_client c, numero_telephone c, adresse c, code_postal c, ville c,
       date_naissance c, credit_disponible c, (if bon_client c then 1 else 0),
       couleur_cheveux c),
      idclient c)"

text \<open>
  A row of the table \<^verbatim>\<open>Clients\<close>, one field per column of the persisted schema,
  \<^verbatim>\<open>bon_client\<close> being the integer the table stores.
\<close>

record ligne_client =
  IDCLIENT :: int
  col_nom_client :: string
  col_numero_telephone :: string
  col_adresse :: string
  col_code_postal :: string
  col_ville :: string
  col_date_naissance :: string
  col_credit_disponible :: real
  col_bon_client :: int
  col_couleur_cheveux :: string

text \<open>
  What a query returns: a row of \<^verbatim>\<open>Clients\<close> (\<^verbatim>\<open>SELECT *\<close>), or a row with one
  named integer column (\<^verbatim>\<open>... AS prochain\<close>, \<^verbatim>\<open>... AS total\<close>). Reading a column a
  row does not have raises \<^verbatim>\<open>IndexError\<close>, as \<^verbatim>\<open>sqlite3.Row\<close> does.
\<close>

datatype ligne = Ligne_client ligne_client | Ligne_scalaire string int

datatype erreur = IndexError

fun colonne_entier :: "ligne \<Rightarrow> string \<Rightarrow> erreur + int" where
  "colonne_entier (Ligne_scalaire nom v) c = (if c = nom then Inr v else Inl IndexError)"
| "colonne_entier (Ligne_client r) c = (if c = ''IDCLIENT'' then Inr (IDCLIENT r)
     else if c = ''bon_client'' then Inr (col_bon_client r) else Inl IndexError)"

fun depuis_row :: "ligne \<Rightarrow> erreur + Client" where
  "depuis_row (Ligne_client r) =
     Inr \<lparr>idclient = Some (IDCLIENT r),
          nom_client = col_nom_client r,
          numero_telephone = col_numero_telephone r,
          adresse = col_adresse r,
          code_postal = col_code_postal r,
          ville = col_ville r,
          date_naissance = col_date_naissance r,
          credit_disponible = col_credit_disponible r,
          bon_client = (col_bon_client r \<noteq> 0),
          couleur_cheveux = col_couleur_cheveux r\<rparr>"
| "depuis_row (Ligne_scalaire nom v) = Inl IndexError"

section \<open>models/client\_model.py: the data-access object\<close>

text \<open>
  The statements the data-access object sends, each with its bound parameters:
  \<^verbatim>\<open>executer\<close> receives an \<open>ordre\<close>, \<^verbatim>\<open>interroger\<close> a \<open>question\<close>.
  \<open>Delete_parmi\<close> carries the placeholder text the source builds.
\<close>

datatype ordre =
    Insert_clients int valeurs
  | Update_clients valeurs "int option"
  | Delete_par_id int
  | Delete_parmi string "int list"

datatype question =
    Select_prochain
  | Select_par_id int
  | Select_like string
  | Select_count

datatype curseur = Curseur (rowcount: nat)

text \<open>
  The database handle \<^verbatim>\<open>GestionnaireBase\<close> is a collaborator passed to every
  operation. Its two methods are parameters of the model: \<open>executer\<close> returns a cursor
  or \<open>None\<close> and the new state of the store, \<open>interroger\<close> returns the rows (none on
  failure).
\<close>

record 'b gestionnaire =
  executer :: "ordre \<Rightarrow> 'b \<Rightarrow> curseur option \<times> 'b"
  interroger :: "question \<Rightarrow> 'b \<Rightarrow> ligne list"

definition creer :: "'b gestionnaire \<Rightarrow> 'b \<Rightarrow> Client \<Rightarrow> erreur + (int option \<times> 'b)" where
  "creer g db client =
     (case interroger g Select_prochain db of
        [] \<Rightarrow> Inr (None, db)
      | row # _ \<Rightarrow>
          (case colonne_entier row ''prochain'' of
             Inl e \<Rightarrow> Inl e
           | Inr prochain_id \<Rightarrow>
               (case executer g (Insert_clients prochain_id (en_tuple_insertion client)) db of
                  (Some curseur, db') \<Rightarrow> Inr (Some prochain_id, db')
                | (None, db') \<Rightarrow> Inr (None, db'))))"

definition lire :: "'b gestionnaire \<Rightarrow> 'b \<Rightarrow> int \<Rightarrow> erreur + Client option" where
  "lire g db i =
     (case interroger g (Select_par_id i) db of
        [] \<Rightarrow> Inr None
      | row # _ \<Rightarrow> (case depuis_row row of Inl e \<Rightarrow> Inl e | Inr c \<Rightarrow> Inr (Some c)))"

definition modifier :: "'b gestionnaire \<Rightarrow> 'b \<Rightarrow> Client \<Rightarrow> bool \<times> 'b" where
  "modifier g db client =
     (case en_tuple_modification client of
        (v, i) \<Rightarrow> (case executer g (Update_clients v i) db of
                      (curseur, db') \<Rightarrow> (curseur \<noteq> None, db')))"

definition supprimer :: "'b gestionnaire \<Rightarrow> 'b \<Rightarrow> int \<Rightarrow> bool \<times> 'b" where
  "supprimer g db i =
     (case executer g (Delete_par_id i) db of (curseur, db') \<Rightarrow> (curseur \<noteq> None, db'))"

text \<open>\<^verbatim>\<open>sep.join(parts)\<close> of Python.\<close>

fun join :: "string \<Rightarrow> string list \<Rightarrow> string" where
  "join sep [] = []"
| "join sep [p] = p"
| "join sep (p # q # ps) = p @ sep @ join sep (q # ps)"

definition supprimer_plusieurs :: "'b gestionnaire \<Rightarrow> 'b \<Rightarrow> int list \<Rightarrow> bool \<times> 'b" where
  "supprimer_plusieurs g db ids =
     (if ids = [] then (True, db)
      else
        let placeholders = join '', '' (map (\<lambda>c. [c]) (replicate (length ids) CHR ''?''))
        in case executer g (Delete_parmi placeholders ids) db of
             (curseur, db') \<Rightarrow> (curseur \<noteq> None, db'))"



definition compter :: "'b gestionnaire \<Rightarrow> 'b \<Rightarrow> erreur + int" where
  "compter g db =
     (case interroger g Select_count db of
        [] \<Rightarrow> Inr 0
      | row # _ \<Rightarrow> colonne_entier row ''total'')"

section \<open>The store behind the handle\<close>

text \<open>
  Modelled from the spec: \<^verbatim>\<open>GestionnaireBase\<close> (core/database.py) and the table
  \<^verbatim>\<open>Clients\<close> it wraps are not part of the sources; section 6 of the specification
  gives the handle's two methods and the persisted schema. The store is the list of the
  table's rows. The schema's column constraints are a parameter (\<open>contrainte\<close>), as is
  the case folding of \<^verbatim>\<open>LIKE\<close> (\<open>pli\<close>, the identity for a case-sensitive engine).
  Identifiers are unbounded integers.
\<close>

record schema =
  contrainte :: "ligne_client \<Rightarrow> bool"
  pli :: "char \<Rightarrow> char"

type_synonym table = "ligne_client list"

text \<open>Modelled from the spec: the row an \<^verbatim>\<open>INSERT\<close> stores, its ten parameters bound
  to the ten columns in the schema's order.\<close>

fun ligne_de :: "int \<Rightarrow> valeurs \<Rightarrow> ligne_client" where
  "ligne_de i (n, t, a, cp, v, d, cr, b, ch) =
     \<lparr>IDCLIENT = i, col_nom_client = n, col_numero_telephone = t, col_adresse = a,
      col_code_postal = cp, col_ville = v, col_date_naissance = d,
      col_credit_disponible = cr, col_bon_client = b, col_couleur_cheveux = ch\<rparr>"

text \<open>Modelled from the spec: \<^verbatim>\<open>MAX(IDCLIENT)\<close>, \<open>NULL\<close> (here \<open>None\<close>) on an empty
  table.\<close>

fun max_idclient :: "table \<Rightarrow> int option" where
  "max_idclient [] = None"
| "max_idclient (r # rs) =
     (case max_idclient rs of None \<Rightarrow> Some (IDCLIENT r) | Some m \<Rightarrow> Some (max (IDCLIENT r) m))"

text \<open>Modelled from the spec: \<^verbatim>\<open>COALESCE(x, d)\<close>.\<close>

fun coalesce :: "'a option \<Rightarrow> 'a \<Rightarrow> 'a" where
  "coalesce None d = d"
| "coalesce (Some x) d = x"

text \<open>Modelled from the spec: \<^verbatim>\<open>texte LIKE motif\<close>. In the pattern \<open>%\<close> stands for
  any run of characters and \<open>_\<close> for any one character; every other character stands for
  itself, compared after folding.\<close>

fun like :: "(char \<Rightarrow> char) \<Rightarrow> string \<Rightarrow> string \<Rightarrow> bool" where
  "like f [] s = (s = [])"
| "like f (p # ps) [] = (p = CHR ''%'' \<and> like f ps [])"
| "like f (p # ps) (c # cs) =
     (if p = CHR ''%'' then like f ps (c # cs) \<or> like f (p # ps) cs
      else if p = CHR ''_'' then like f ps cs
      else f p = f c \<and> like f ps cs)"

text \<open>Modelled from the spec: how the engine reads the text between the parentheses
  of \<^verbatim>\<open>IN (...)\<close>. Spaces apart, the text is empty or a \<open>?\<close> followed by any number of
  \<open>,?\<close>; the result is the number of placeholders, and \<open>None\<close> for any other text (a
  syntax error).\<close>

fun suite_placeholders :: "string \<Rightarrow> nat option" where
  "suite_placeholders [] = Some 0"
| "suite_placeholders [c] = None"
| "suite_placeholders (c # d # cs) =
     (if c = CHR '','' \<and> d = CHR ''?'' then map_option Suc (suite_placeholders cs) else None)"

definition placeholders_lus :: "string \<Rightarrow> nat option" where
  "placeholders_lus texte =
     (case filter (\<lambda>c. c \<noteq> CHR '' '') texte of
        [] \<Rightarrow> Some 0
      | c # cs \<Rightarrow> if c = CHR ''?'' then map_option Suc (suite_placeholders cs) else None)"

text \<open>Modelled from the spec: \<^verbatim>\<open>execute(sql, params) -> cursor-or-failure\<close>. An insert
  fails on a duplicate key or a violated constraint, an update on a violated constraint,
  a statement whose placeholder list is ill-formed or has a number of placeholders
  other than that of its parameters fails too; a failed statement changes nothing.\<close>

fun sqlite_executer :: "schema \<Rightarrow> ordre \<Rightarrow> table \<Rightarrow> curseur option \<times> table" where
  "sqlite_executer S (Insert_clients i v) t =
     (if i \<in> set (map IDCLIENT t) \<or> \<not> contrainte S (ligne_de i v) then (None, t)
      else (Some (Curseur 1), t @ [ligne_de i v]))"
| "sqlite_executer S (Update_clients v None) t = (Some (Curseur 0), t)"
| "sqlite_executer S (Update_clients v (Some i)) t =
     (if (\<exists>r \<in> set t. IDCLIENT r = i) \<and> \<not> contrainte S (ligne_de i v) then (None, t)
      else (Some (Curseur (length (filter (\<lambda>r. IDCLIENT r = i) t))),
            map (\<lambda>r. if IDCLIENT r = i then ligne_de i v else r) t))"
| "sqlite_executer S (Delete_par_id i) t =
     (Some (Curseur (length (filter (\<lambda>r. IDCLIENT r = i) t))),
      filter (\<lambda>r. IDCLIENT r \<noteq> i) t)"
| "sqlite_executer S (Delete_parmi placeholders ids) t =
     (if placeholders_lus placeholders \<noteq> Some (length ids) then (None, t)
      else (Some (Curseur (length (filter (\<lambda>r. IDCLIENT r \<in> set ids) t))),
            filter (\<lambda>r. IDCLIENT r \<notin> set ids) t))"

text \<open>Modelled from the spec: \<^verbatim>\<open>query(sql, params) -> ordered sequence of rows\<close>.\<close>

fun sqlite_interroger :: "schema \<Rightarrow> question \<Rightarrow> table \<Rightarrow> ligne list" where
  "sqlite_interroger S Select_prochain t =
     [Ligne_scalaire ''prochain'' (coalesce (max_idclient t) 0 + 1)]"
| "sqlite_interroger S (Select_par_id i) t =
     map Ligne_client (filter (\<lambda>r. IDCLIENT r = i) t)"
| "sqlite_interroger S (Select_like motif) t =
     map Ligne_client
       (sort_key col_nom_client (filter (\<lambda>r. like (pli S) motif (col_nom_client r)) t))"
| "sqlite_interroger S Select_count t = [Ligne_scalaire ''total'' (int (length t))]"

text \<open>Modelled from the spec: the handle on a working store, its two methods the two
  functions above.\<close>

definition sqlite :: "schema \<Rightarrow> table gestionnaire" where
  "sqlite S = \<lparr>executer = sqlite_executer S, interroger = sqlite_interroger S\<rparr>"

text \<open>Modelled from the spec: a handle whose every call fails (a lost connection):
  no cursor, no rows.\<close>

definition hors_service :: "table gestionnaire" where
  "hors_service = \<lparr>executer = (\<lambda>q t. (None, t)), interroger = (\<lambda>q t. [])\<rparr>"

section \<open>classes/base\_window.py: the window base\<close>

datatype tcl_error = TclError

text \<open>
  The four readings \<^verbatim>\<open>_centrer\<close> takes of the parent widget, each of which may raise
  (a parent that is not realised, or destroyed), and the two it takes of the screen.
\<close>

record widget =
  winfo_rootx :: "tcl_error + int"
  winfo_rooty :: "tcl_error + int"
  winfo_width :: "tcl_error + int"
  winfo_height :: "tcl_error + int"

record ecran =
  winfo_screenwidth :: int
  winfo_screenheight :: int

text \<open>
  The \<^verbatim>\<open>try\<close> block of \<^verbatim>\<open>_centrer\<close>: the four readings in the source's order, then
  the two floor divisions; the first reading that raises ends the block.
\<close>

definition centre_sur_parent :: "widget \<Rightarrow> int \<Rightarrow> int \<Rightarrow> tcl_error + (int \<times> int)" where
  "centre_sur_parent parent largeur hauteur =
     (case winfo_rootx parent of Inl e \<Rightarrow> Inl e | Inr px \<Rightarrow>
      case winfo_rooty parent of Inl e \<Rightarrow> Inl e | Inr py \<Rightarrow>
      case winfo_width parent of Inl e \<Rightarrow> Inl e | Inr pw \<Rightarrow>
      case winfo_height parent of Inl e \<Rightarrow> Inl e | Inr ph \<Rightarrow>
        Inr (px + (pw - largeur) div 2, py + (ph - hauteur) div 2))"

text \<open>The placement \<open>(x, y)\<close> after the \<^verbatim>\<open>try\<close>/\<^verbatim>\<open>except\<close>.\<close>

definition placement :: "widget \<Rightarrow> ecran \<Rightarrow> int \<Rightarrow> int \<Rightarrow> int \<times> int" where
  "placement parent scr largeur hauteur =
     (case centre_sur_parent parent largeur hauteur of
        Inr xy \<Rightarrow> xy
      | Inl e \<Rightarrow> ((winfo_screenwidth scr - largeur) div 2,
                  (winfo_screenheight scr - hauteur) div 2))"

text \<open>\<^verbatim>\<open>str(n)\<close> of a Python integer.\<close>

fun chiffres :: "nat \<Rightarrow> string" where
  "chiffres n =
     (if n < 10 then [''0123456789'' ! n]
      else chiffres (n div 10) @ [''0123456789'' ! (n mod 10)])"

definition str_int :: "int \<Rightarrow> string" where
  "str_int i = (if i < 0 then CHR ''-'' # chiffres (nat (- i)) else chiffres (nat i))"

text \<open>
  The window: the geometry it last asked for and its image cache, a dictionary from file
  names to image handles.
\<close>

record 'img fenetre =
  geometrie :: string
  cache_images :: "string \<rightharpoonup> 'img"

definition centrer :: "widget \<Rightarrow> ecran \<Rightarrow> int \<Rightarrow> int \<Rightarrow> 'img fenetre \<Rightarrow> 'img fenetre" where
  "centrer parent scr largeur hauteur fen =
     (case placement parent scr largeur hauteur of
        (x, y) \<Rightarrow>
          fen\<lparr>geometrie :=
            str_int largeur @ ''x'' @ str_int hauteur @ ''+'' @ str_int x @ ''+'' @ str_int y\<rparr>)"

text \<open>
  What \<^verbatim>\<open>charger_image\<close> reads of its surroundings: the constant \<^verbatim>\<open>IMAGES_DIR\<close> of
  core/config.py (not part of the sources, so a parameter), \<^verbatim>\<open>os.path.isfile\<close>, and
  \<^verbatim>\<open>tk.PhotoImage(file=...)\<close>, which returns a handle or raises \<^verbatim>\<open>TclError\<close>.
\<close>

record 'img systeme =
  images_dir :: string
  isfile :: "string \<Rightarrow> bool"
  photo_image :: "string \<Rightarrow> tcl_error + 'img"

text \<open>\<^verbatim>\<open>os.path.join(a, b)\<close> (POSIX).\<close>

definition os_path_join :: "string \<Rightarrow> string \<Rightarrow> string" where
  "os_path_join a b =
     (case b of
        c # _ \<Rightarrow> if c = CHR ''/'' then b
                 else if a = [] \<or> last a = CHR ''/'' then a @ b else a @ ''/'' @ b
      | [] \<Rightarrow> if a = [] \<or> last a = CHR ''/'' then a else a @ ''/'')"

definition charger_image ::
  "'img systeme \<Rightarrow> string \<Rightarrow> (int \<times> int) option \<Rightarrow> 'img fenetre \<Rightarrow> 'img option \<times> 'img fenetre"
where
  "charger_image env nom_fichier taille fen =
     (let cle_cache = nom_fichier in
      case cache_images fen cle_cache of
        Some photo \<Rightarrow> (Some photo, fen)
      | None \<Rightarrow>
          (let chemin = os_path_join (images_dir env) nom_fichier in
           if \<not> isfile env chemin then (None, fen)
           else case photo_image env chemin of
                  Inr photo \<Rightarrow>
                    (Some photo, fen\<lparr>cache_images := (cache_images fen)(cle_cache \<mapsto> photo)\<rparr>)
                | Inl TclError \<Rightarrow> (None, fen)))"

text \<open>
  The windows a fixed environment can lead to: the cache is empty when the constructor
  returns, and only \<^verbatim>\<open>charger_image\<close> writes to it.
\<close>

inductive atteignable :: "'img systeme \<Rightarrow> 'img fenetre \<Rightarrow> bool" for env :: "'img systeme" where
  initiale: "atteignable env \<lparr>geometrie = g, cache_images = Map.empty\<rparr>"
| chargee: "atteignable env fen \<Longrightarrow>
     atteignable env (snd (charger_image env nom_fichier taille fen))"

section \<open>Sample data\<close>

definition schema_exemple :: schema where
  "schema_exemple =
     \<lparr>contrainte = (\<lambda>r. length (col_code_postal r) = 5), pli = (\<lambda>c. c)\<rparr>"

definition alice :: Client where
  "alice = \<lparr>idclient = None, nom_client = ''Alice'', numero_telephone = ''0102030405'',
     adresse = ''1 rue A'', code_postal = ''75001'', ville = ''Paris'',
     date_naissance = ''1990-01-31'', credit_disponible = 125.5, bon_client = True,
     couleur_cheveux = ''brun''\<rparr>"

definition bob :: Client where
  "bob = \<lparr>idclient = None, nom_client = ''bob'', numero_telephone = ''0605040302'',
     adresse = ''2 rue B'', code_postal = ''69002'', ville = ''Lyon'',
     date_naissance = ''1985-07-14'', credit_disponible = 0, bon_client = False,
     couleur_cheveux = ''roux''\<rparr>"

definition table_exemple :: table where
  "table_exemple =
     [ligne_de 7 (en_tuple_insertion bob), ligne_de 3 (en_tuple_insertion alice)]"

definition parent_exemple :: widget where
  "parent_exemple =
     \<lparr>winfo_rootx = Inr 100, winfo_rooty = Inr 50, winfo_width = Inr 300, winfo_height = Inr 600\<rparr>"

definition parent_non_affiche :: widget where
  "parent_non_affiche =
     \<lparr>winfo_rootx = Inr 0, winfo_rooty = Inr 0, winfo_width = Inl TclError,
      winfo_height = Inr 1\<rparr>"

definition ecran_exemple :: ecran where
  "ecran_exemple = \<lparr>winfo_screenwidth = 1920, winfo_screenheight = 1080\<rparr>"

definition fenetre_neuve :: "nat fenetre" where
  "fenetre_neuve = \<lparr>geometrie = ''401x300'', cache_images = Map.empty\<rparr>"

definition env_exemple :: "nat systeme" where
  "env_exemple =
     \<lparr>images_dir = ''images'',
      isfile = (\<lambda>p. p = ''images/Base_create.png'' \<or> p = ''images/photo.jpg''),
      photo_image = (\<lambda>p. if p = ''images/Base_create.png'' then Inr 1 else Inl TclError)\<rparr>"


section \<open>Identifier allocation\<close>

lemma max_idclient_Max:
  "t \<noteq> [] \<Longrightarrow> max_idclient t = Some (Max (IDCLIENT ` set t))"
proof (induction t)
  case Nil
  then show ?case by simp
next
  case (Cons r rs)
  show ?case
  proof (cases "rs = []")
    case True
    then show ?thesis by simp
  next
    case False
    with Cons.IH have "max_idclient rs = Some (Max (IDCLIENT ` set rs))" by simp
    moreover from False have "Max (insert (IDCLIENT r) (IDCLIENT ` set rs))
        = max (IDCLIENT r) (Max (IDCLIENT ` set rs))"
      by (simp add: Max_insert)
    ultimately show ?thesis by simp
  qed
qed

lemma max_plus_un_frais: "coalesce (max_idclient t) 0 + 1 \<notin> set (map IDCLIENT t)"
proof (cases "t = []")
  case True
  then show ?thesis by simp
next
  case False
  then have m: "max_idclient t = Some (Max (IDCLIENT ` set t))" by (rule max_idclient_Max)
  have "Max (IDCLIENT ` set t) + 1 \<notin> IDCLIENT ` set t"
  proof
    assume "Max (IDCLIENT ` set t) + 1 \<in> IDCLIENT ` set t"
    then have "Max (IDCLIENT ` set t) + 1 \<le> Max (IDCLIENT ` set t)"
      by (intro Max_ge) simp_all
    then show False by simp
  qed
  with m show ?thesis by simp
qed

lemma creer_sqlite:
  "creer (sqlite S) t c =
     (if contrainte S (ligne_de (coalesce (max_idclient t) 0 + 1) (en_tuple_insertion c))
      then Inr (Some (coalesce (max_idclient t) 0 + 1),
                t @ [ligne_de (coalesce (max_idclient t) 0 + 1) (en_tuple_insertion c)])
      else Inr (None, t))"
  using max_plus_un_frais [of t] by (simp add: creer_def sqlite_def)

lemma prochain_valeur:
  "coalesce (max_idclient t) 0 + 1 = (if t = [] then 1 else Max (IDCLIENT ` set t) + 1)"
  by (simp add: max_idclient_Max)

text \<open>
  Claim C1. On every table \<open>t\<close>, \<^verbatim>\<open>creer\<close> asks the store for the identifier \<open>1\<close>
  when the table is empty and for the greatest identifier of the table plus one
  otherwise; when the schema accepts the row it returns that identifier and the table
  has gained exactly that row, and when the schema refuses the row it returns \<open>None\<close>
  and the table is unchanged.
\<close>

theorem creer_attribue_identifiant:
  "creer (sqlite S) t c =
     (let n = (if t = [] then 1 else Max (IDCLIENT ` set t) + 1);
          r = ligne_de n (en_tuple_insertion c)
      in if contrainte S r then Inr (Some n, t @ [r]) else Inr (None, t))"
  unfolding creer_sqlite prochain_valeur Let_def ..

theorem creer_attribue_identifiant_witness:
  "creer (sqlite schema_exemple) [] alice
     = Inr (Some 1, [ligne_de 1 (en_tuple_insertion alice)])
   \<and> creer (sqlite schema_exemple) table_exemple alice
     = Inr (Some 8, table_exemple @ [ligne_de 8 (en_tuple_insertion alice)])"
  using creer_attribue_identifiant [of schema_exemple "[]" alice]
    creer_attribue_identifiant [of schema_exemple table_exemple alice]
  by (simp add: schema_exemple_def table_exemple_def alice_def bob_def en_tuple_insertion_def)

section \<open>Create, then read\<close>

lemma depuis_row_ligne_de:
  "depuis_row (Ligne_client (ligne_de n (en_tuple_insertion c))) = Inr (c\<lparr>idclient := Some n\<rparr>)"
  by (cases c) (simp add: en_tuple_insertion_def)

lemma filtre_frais:
  "n \<notin> set (map IDCLIENT t) \<Longrightarrow> filter (\<lambda>r. IDCLIENT r = n) t = []"
  by (induction t) auto

lemma IDCLIENT_ligne_de [simp]: "IDCLIENT (ligne_de n v) = n"
  by (cases "(n, v)" rule: ligne_de.cases) simp

text \<open>
  Claim C2. Whenever \<^verbatim>\<open>creer\<close> stores a record \<open>c\<close> and returns the identifier \<open>n\<close>,
  \<^verbatim>\<open>lire\<close> of \<open>n\<close> on the resulting table returns \<open>c\<close> with its identifier set to \<open>n\<close>:
  every other field is the one given, the preferred flag having gone through \<open>0/1\<close> and
  back. (The records the store accepts are the ones the schema's constraint holds for.)
\<close>

theorem creer_puis_lire:
  assumes "creer (sqlite S) t c = Inr (Some n, t')"
  shows "lire (sqlite S) t' n = Inr (Some (c\<lparr>idclient := Some n\<rparr>))"
proof -
  let ?k = "coalesce (max_idclient t) 0 + 1"
  from assms have n: "n = ?k" and t': "t' = t @ [ligne_de ?k (en_tuple_insertion c)]"
    by (auto simp: creer_sqlite split: if_splits)
  have "filter (\<lambda>r. IDCLIENT r = ?k) t = []"
    by (rule filtre_frais) (rule max_plus_un_frais)
  then have "interroger (sqlite S) (Select_par_id n) t'
      = [Ligne_client (ligne_de ?k (en_tuple_insertion c))]"
    by (simp add: sqlite_def n t')
  then show ?thesis
    by (simp add: lire_def depuis_row_ligne_de n del: depuis_row.simps)
qed

theorem creer_puis_lire_witness:
  "creer (sqlite schema_exemple) table_exemple alice
     = Inr (Some 8, table_exemple @ [ligne_de 8 (en_tuple_insertion alice)])
   \<and> lire (sqlite schema_exemple) (table_exemple @ [ligne_de 8 (en_tuple_insertion alice)]) 8
     = Inr (Some (alice\<lparr>idclient := Some 8\<rparr>))"
proof -
  have c: "creer (sqlite schema_exemple) table_exemple alice
     = Inr (Some 8, table_exemple @ [ligne_de 8 (en_tuple_insertion alice)])"
    by (simp add: creer_sqlite schema_exemple_def table_exemple_def alice_def bob_def
        en_tuple_insertion_def)
  from creer_puis_lire [OF c] c show ?thesis by simp
qed

section \<open>Delete, then read\<close>

text \<open>
  Claim C6. On every table and for every identifier \<open>i\<close>, \<^verbatim>\<open>supprimer\<close> returns
  \<open>True\<close> and leaves the rows whose identifier is not \<open>i\<close>, and \<^verbatim>\<open>lire\<close> of \<open>i\<close> on the
  table it leaves returns \<open>None\<close>.
\<close>

theorem supprimer_puis_lire:
  "supprimer (sqlite S) t i = (True, filter (\<lambda>r. IDCLIENT r \<noteq> i) t)
   \<and> lire (sqlite S) (snd (supprimer (sqlite S) t i)) i = Inr None"
  by (simp add: supprimer_def lire_def sqlite_def)

theorem supprimer_puis_lire_witness:
  "lire (sqlite schema_exemple) table_exemple 3 = Inr (Some (alice\<lparr>idclient := Some 3\<rparr>))
   \<and> supprimer (sqlite schema_exemple) table_exemple 3
       = (True, [ligne_de 7 (en_tuple_insertion bob)])
   \<and> lire (sqlite schema_exemple) [ligne_de 7 (en_tuple_insertion bob)] 3 = Inr None"
  using supprimer_puis_lire [of schema_exemple table_exemple 3]
  by (simp add: table_exemple_def lire_def sqlite_def alice_def bob_def en_tuple_insertion_def)

section \<open>Batch delete\<close>

lemma join_replicate:
  "join '', '' (replicate (Suc n) ''?'') = ''?'' @ concat (replicate n '', ?'')"
  by (induction n) simp_all

lemma placeholders_texte:
  "ids \<noteq> [] \<Longrightarrow>
   join '', '' (map (\<lambda>c. [c]) (replicate (length ids) CHR ''?''))
     = ''?'' @ concat (replicate (length ids - 1) '', ?'')"
  using join_replicate [of "length ids - 1"] by (cases ids) simp_all

lemma sans_espaces_placeholders:
  "filter (\<lambda>c. c \<noteq> CHR '' '') (concat (replicate n '', ?'')) = concat (replicate n '',?'')"
  by (induction n) simp_all

lemma suite_placeholders_replicate:
  "suite_placeholders (concat (replicate n '',?'')) = Some n"
  by (induction n) simp_all

lemma placeholders_lus_texte:
  "placeholders_lus (''?'' @ concat (replicate n '', ?'')) = Some (Suc n)"
  by (simp add: placeholders_lus_def sans_espaces_placeholders suite_placeholders_replicate)

text \<open>
  Claim C5. With the empty list \<^verbatim>\<open>supprimer_plusieurs\<close> returns \<open>True\<close> and leaves the
  store as it is, whatever the handle. On every table it returns \<open>True\<close> and leaves
  exactly the rows whose identifier is not in the list, each unchanged. For a non-empty
  list of \<open>n\<close> identifiers the statement it sends, to any handle, has the placeholder
  text \<open>?\<close> followed by \<open>n - 1\<close> times \<open>, ?\<close>, bound to the list itself; the engine reads
  \<open>n\<close> placeholders in that text, and that text has \<open>n\<close> characters \<open>?\<close>.
\<close>

theorem supprimer_plusieurs_effet:
  "supprimer_plusieurs g db [] = (True, db)
   \<and> supprimer_plusieurs (sqlite S) t ids = (True, filter (\<lambda>r. IDCLIENT r \<notin> set ids) t)
   \<and> (ids \<noteq> [] \<longrightarrow>
        supprimer_plusieurs g db ids
          = (case executer g
               (Delete_parmi (''?'' @ concat (replicate (length ids - 1) '', ?'')) ids) db
             of (c, db') \<Rightarrow> (c \<noteq> None, db'))
        \<and> placeholders_lus (''?'' @ concat (replicate (length ids - 1) '', ?''))
            = Some (length ids)
        \<and> count_list (''?'' @ concat (replicate (length ids - 1) '', ?'')) CHR ''?''
            = length ids)"
proof (intro conjI impI)
  show "supprimer_plusieurs g db [] = (True, db)"
    by (simp add: supprimer_plusieurs_def)
next
  show "supprimer_plusieurs (sqlite S) t ids = (True, filter (\<lambda>r. IDCLIENT r \<notin> set ids) t)"
  proof (cases "ids = []")
    case True
    then show ?thesis by (simp add: supprimer_plusieurs_def)
  next
    case False
    then have n: "Suc (length ids - 1) = length ids" by (cases ids) simp_all
    have "placeholders_lus (''?'' @ concat (replicate (length ids - 1) '', ?''))
        = Some (length ids)"
      using placeholders_lus_texte [of "length ids - 1"] n by simp
    moreover from False have "supprimer_plusieurs (sqlite S) t ids
        = (case executer (sqlite S)
             (Delete_parmi (join '', '' (map (\<lambda>c. [c]) (replicate (length ids) CHR ''?''))) ids) t
           of (c, db') \<Rightarrow> (c \<noteq> None, db'))"
      by (simp only: supprimer_plusieurs_def Let_def if_False)
    ultimately show ?thesis
      by (simp only: placeholders_texte [OF False]) (simp add: sqlite_def)
  qed
next
  assume ne: "ids \<noteq> []"
  then have "supprimer_plusieurs g db ids
      = (case executer g
           (Delete_parmi (join '', '' (map (\<lambda>c. [c]) (replicate (length ids) CHR ''?''))) ids) db
         of (c, db') \<Rightarrow> (c \<noteq> None, db'))"
    by (simp only: supprimer_plusieurs_def Let_def if_False)
  then show "supprimer_plusieurs g db ids
      = (case executer g
           (Delete_parmi (''?'' @ concat (replicate (length ids - 1) '', ?'')) ids) db
         of (c, db') \<Rightarrow> (c \<noteq> None, db'))"
    by (simp only: placeholders_texte [OF ne])
next
  assume "ids \<noteq> []"
  then have "Suc (length ids - 1) = length ids" by (cases ids) simp_all
  with placeholders_lus_texte [of "length ids - 1"]
  show "placeholders_lus (''?'' @ concat (replicate (length ids - 1) '', ?''))
      = Some (length ids)"
    by simp
next
  assume "ids \<noteq> []"
  then have n: "Suc (length ids - 1) = length ids" by (cases ids) simp_all
  have "count_list (concat (replicate k '', ?'')) CHR ''?'' = k" for k
    by (induction k) simp_all
  with n show "count_list (''?'' @ concat (replicate (length ids - 1) '', ?'')) CHR ''?''
      = length ids"
    by simp
qed

theorem supprimer_plusieurs_effet_witness:
  "supprimer_plusieurs (sqlite schema_exemple) table_exemple [] = (True, table_exemple)
   \<and> supprimer_plusieurs (sqlite schema_exemple)
        (table_exemple @ [ligne_de 8 (en_tuple_insertion alice)]) [8, 7, 5]
       = (True, [ligne_de 3 (en_tuple_insertion alice)])
   \<and> supprimer_plusieurs (sqlite schema_exemple)
        (table_exemple @ [ligne_de 8 (en_tuple_insertion alice)]) [8, 7, 5]
       = (case executer (sqlite schema_exemple) (Delete_parmi ''?, ?, ?'' [8, 7, 5])
                 (table_exemple @ [ligne_de 8 (en_tuple_insertion alice)])
          of (c, db') \<Rightarrow> (c \<noteq> None, db'))
   \<and> placeholders_lus ''?, ?, ?'' = Some 3
   \<and> placeholders_lus ''???'' = None
   \<and> executer (sqlite schema_exemple) (Delete_parmi ''???'' [8, 7, 5]) table_exemple
       = (None, table_exemple)"
  using supprimer_plusieurs_effet
    [of "sqlite schema_exemple" table_exemple schema_exemple
        "table_exemple @ [ligne_de 8 (en_tuple_insertion alice)]" "[8, 7, 5]"]
  by (simp add: table_exemple_def sqlite_def placeholders_lus_def)

section \<open>Update\<close>

text \<open>
  Claim C4. When no row of the table has the record's identifier (or the record has
  none), \<^verbatim>\<open>modifier\<close> returns \<open>True\<close> and the table is the same list of rows. With any
  handle, \<^verbatim>\<open>modifier\<close> returns \<open>True\<close> when \<^verbatim>\<open>executer\<close> returned a cursor, whatever
  its row count \<open>k\<close>, and \<open>False\<close> when it returned \<open>None\<close>.
\<close>

theorem modifier_succes:
  "((\<forall>r \<in> set t. Some (IDCLIENT r) \<noteq> idclient c) \<longrightarrow> modifier (sqlite S) t c = (True, t))
   \<and> (executer g (case_prod Update_clients (en_tuple_modification c)) db = (Some (Curseur k), db')
        \<longrightarrow> modifier g db c = (True, db'))
   \<and> (executer g (case_prod Update_clients (en_tuple_modification c)) db = (None, db')
        \<longrightarrow> modifier g db c = (False, db'))"
proof (intro conjI impI)
  assume absent: "\<forall>r \<in> set t. Some (IDCLIENT r) \<noteq> idclient c"
  obtain v i where vi: "en_tuple_modification c = (v, i)" by (cases "en_tuple_modification c")
  then have i: "i = idclient c" by (simp add: en_tuple_modification_def)
  show "modifier (sqlite S) t c = (True, t)"
  proof (cases i)
    case None
    with vi show ?thesis by (simp add: modifier_def sqlite_def)
  next
    case (Some j)
    with absent i have nul: "\<forall>r \<in> set t. IDCLIENT r \<noteq> j" by auto
    then have "filter (\<lambda>r. IDCLIENT r = j) t = []" by (simp add: filter_empty_conv)
    moreover from nul have "map (\<lambda>r. if IDCLIENT r = j then ligne_de j v else r) t = t"
      by (simp add: map_idI)
    ultimately show ?thesis using vi Some nul by (simp add: modifier_def sqlite_def)
  qed
next
  assume "executer g (case_prod Update_clients (en_tuple_modification c)) db = (Some (Curseur k), db')"
  then show "modifier g db c = (True, db')"
    by (cases "en_tuple_modification c") (simp add: modifier_def)
next
  assume "executer g (case_prod Update_clients (en_tuple_modification c)) db = (None, db')"
  then show "modifier g db c = (False, db')"
    by (cases "en_tuple_modification c") (simp add: modifier_def)
qed

theorem modifier_succes_witness:
  "modifier (sqlite schema_exemple) table_exemple (alice\<lparr>idclient := Some 42, code_postal := ''x''\<rparr>)
     = (True, table_exemple)
   \<and> modifier (sqlite schema_exemple) table_exemple (bob\<lparr>idclient := Some 3\<rparr>)
     = (True, [ligne_de 7 (en_tuple_insertion bob), ligne_de 3 (en_tuple_insertion bob)])
   \<and> modifier hors_service table_exemple (bob\<lparr>idclient := Some 3\<rparr>) = (False, table_exemple)"
  using modifier_succes [of table_exemple "alice\<lparr>idclient := Some 42, code_postal := ''x''\<rparr>"
      schema_exemple "sqlite schema_exemple" table_exemple 1
      "[ligne_de 7 (en_tuple_insertion bob), ligne_de 3 (en_tuple_insertion bob)]"]
    modifier_succes [of table_exemple "bob\<lparr>idclient := Some 3\<rparr>"
      schema_exemple "sqlite schema_exemple" table_exemple 1
      "[ligne_de 7 (en_tuple_insertion bob), ligne_de 3 (en_tuple_insertion bob)]"]
    modifier_succes [of table_exemple "bob\<lparr>idclient := Some 3\<rparr>"
      schema_exemple hors_service table_exemple 0 table_exemple]
  by (simp add: table_exemple_def sqlite_def hors_service_def alice_def bob_def
      en_tuple_insertion_def en_tuple_modification_def schema_exemple_def)

section \<open>Create without an identifier\<close>

text \<open>
  Claim C9. With any handle whose identifier query returns no row, \<^verbatim>\<open>creer\<close> returns
  \<open>None\<close> and the store is the one it was given: \<^verbatim>\<open>executer\<close> is not called, whatever
  it would have done.
\<close>

theorem creer_sans_prochain:
  assumes "interroger g Select_prochain db = []"
  shows "creer g db c = Inr (None, db)"
  using assms by (simp add: creer_def)

theorem creer_sans_prochain_witness:
  "interroger ((sqlite schema_exemple)\<lparr>interroger := (\<lambda>q t. [])\<rparr>) Select_prochain table_exemple = []
   \<and> creer ((sqlite schema_exemple)\<lparr>interroger := (\<lambda>q t. [])\<rparr>) table_exemple alice
       = Inr (None, table_exemple)
   \<and> fst (executer ((sqlite schema_exemple)\<lparr>interroger := (\<lambda>q t. [])\<rparr>)
        (Insert_clients 8 (en_tuple_insertion alice)) table_exemple) = Some (Curseur 1)"
proof -
  have h: "interroger ((sqlite schema_exemple)\<lparr>interroger := (\<lambda>q t. [])\<rparr>) Select_prochain
      table_exemple = []"
    by simp
  from creer_sans_prochain [OF h, of alice] h show ?thesis
    by (simp add: sqlite_def table_exemple_def schema_exemple_def alice_def bob_def
        en_tuple_insertion_def)
qed

section \<open>Window centering\<close>

text \<open>
  Claim C7. When the four readings of the parent succeed with origin \<open>(px, py)\<close> and
  size \<open>(pw, ph)\<close>, the placement of a window of size \<open>(w, h)\<close> is
  \<open>(px + (pw - w) div 2, py + (ph - h) div 2)\<close>, \<open>div\<close> being the floor division of the
  source. When any of the four readings raises, the placement is
  \<open>((screen width - w) div 2, (screen height - h) div 2)\<close>. The geometry the window
  asks for is \<^verbatim>\<open>WxH+X+Y\<close> with that placement.
\<close>

theorem centrer_placement:
  "(winfo_rootx parent = Inr px \<and> winfo_rooty parent = Inr py
      \<and> winfo_width parent = Inr pw \<and> winfo_height parent = Inr ph
      \<longrightarrow> placement parent scr w h = (px + (pw - w) div 2, py + (ph - h) div 2))
   \<and> (isl (winfo_rootx parent) \<or> isl (winfo_rooty parent)
        \<or> isl (winfo_width parent) \<or> isl (winfo_height parent)
      \<longrightarrow> placement parent scr w h
            = ((winfo_screenwidth scr - w) div 2, (winfo_screenheight scr - h) div 2))
   \<and> geometrie (centrer parent scr w h fen)
       = str_int w @ ''x'' @ str_int h @ ''+'' @ str_int (fst (placement parent scr w h))
           @ ''+'' @ str_int (snd (placement parent scr w h))"
proof (intro conjI impI)
  assume "winfo_rootx parent = Inr px \<and> winfo_rooty parent = Inr py
      \<and> winfo_width parent = Inr pw \<and> winfo_height parent = Inr ph"
  then show "placement parent scr w h = (px + (pw - w) div 2, py + (ph - h) div 2)"
    by (simp add: placement_def centre_sur_parent_def)
next
  assume "isl (winfo_rootx parent) \<or> isl (winfo_rooty parent)
        \<or> isl (winfo_width parent) \<or> isl (winfo_height parent)"
  then have "isl (centre_sur_parent parent w h)"
    by (auto simp: centre_sur_parent_def isl_def split: sum.splits)
  then show "placement parent scr w h
      = ((winfo_screenwidth scr - w) div 2, (winfo_screenheight scr - h) div 2)"
    by (auto simp: placement_def isl_def)
next
  show "geometrie (centrer parent scr w h fen)
       = str_int w @ ''x'' @ str_int h @ ''+'' @ str_int (fst (placement parent scr w h))
           @ ''+'' @ str_int (snd (placement parent scr w h))"
    by (cases "placement parent scr w h") (simp add: centrer_def)
qed

theorem centrer_placement_witness:
  "placement parent_exemple ecran_exemple 401 300 = (49, 200)
   \<and> placement parent_non_affiche ecran_exemple 401 300 = (759, 390)
   \<and> geometrie (centrer parent_exemple ecran_exemple 401 300 fenetre_neuve) = ''401x300+49+200''"
  using centrer_placement [of parent_exemple 100 50 300 600 ecran_exemple 401 300 fenetre_neuve]
    centrer_placement [of parent_non_affiche 0 0 0 1 ecran_exemple 401 300 fenetre_neuve]
  by (simp add: parent_exemple_def parent_non_affiche_def ecran_exemple_def str_int_def)

section \<open>Image loading\<close>

lemma charger_image_None:
  "fst (charger_image env nom taille fen) = None \<Longrightarrow> snd (charger_image env nom taille fen) = fen"
  by (auto simp: charger_image_def Let_def split: option.splits sum.splits tcl_error.splits if_splits)

lemma cache_invariant:
  assumes "atteignable env fen" and "cache_images fen n = Some h"
  shows "isfile env (os_path_join (images_dir env) n)
         \<and> photo_image env (os_path_join (images_dir env) n) = Inr h"
  using assms
proof (induction arbitrary: n h rule: atteignable.induct)
  case (initiale g)
  then show ?case by simp
next
  case (chargee fen nom taille)
  show ?case
  proof (cases "cache_images fen n = Some h")
    case True
    then show ?thesis by (rule chargee.IH)
  next
    case False
    with chargee.prems show ?thesis
      by (auto simp: charger_image_def Let_def
          split: option.splits sum.splits tcl_error.splits if_splits)
  qed
qed





text \<open>
  Claim C10. A call of \<^verbatim>\<open>charger_image\<close> that returns \<open>None\<close> leaves the window, and
  so its cache, unchanged. In every window reached from the constructor, each entry of
  the cache maps a file name to the handle \<^verbatim>\<open>tk.PhotoImage\<close> returned for that name's
  file, which exists.
\<close>

theorem cache_images_charges:
  "(fst (charger_image env nom taille fen) = None
      \<longrightarrow> snd (charger_image env nom taille fen) = fen)
   \<and> (atteignable env fen \<and> cache_images fen n = Some h
      \<longrightarrow> isfile env (os_path_join (images_dir env) n)
          \<and> photo_image env (os_path_join (images_dir env) n) = Inr h)"
  using charger_image_None [of env nom taille fen] cache_invariant [of env fen n h] by blast

theorem cache_images_charges_witness:
  "fst (charger_image env_exemple ''photo.jpg'' None fenetre_neuve) = None
   \<and> snd (charger_image env_exemple ''photo.jpg'' None fenetre_neuve) = fenetre_neuve
   \<and> atteignable env_exemple (fenetre_neuve\<lparr>cache_images := [''Base_create.png'' \<mapsto> 1]\<rparr>)
   \<and> cache_images (fenetre_neuve\<lparr>cache_images := [''Base_create.png'' \<mapsto> 1]\<rparr>)
        ''Base_create.png'' = Some 1
   \<and> isfile env_exemple (os_path_join (images_dir env_exemple) ''Base_create.png'')
   \<and> photo_image env_exemple (os_path_join (images_dir env_exemple) ''Base_create.png'') = Inr 1"
proof -
  have rien: "fst (charger_image env_exemple ''photo.jpg'' None fenetre_neuve) = None"
    by (simp add: charger_image_def env_exemple_def fenetre_neuve_def os_path_join_def)
  have un: "snd (charger_image env_exemple ''Base_create.png'' None fenetre_neuve)
     = fenetre_neuve\<lparr>cache_images := [''Base_create.png'' \<mapsto> 1]\<rparr>"
    by (simp add: charger_image_def env_exemple_def fenetre_neuve_def os_path_join_def)
  have "atteignable env_exemple fenetre_neuve"
    unfolding fenetre_neuve_def by (rule atteignable.initiale)
  then have "atteignable env_exemple
      (snd (charger_image env_exemple ''Base_create.png'' None fenetre_neuve))"
    by (rule atteignable.chargee)
  with un have att: "atteignable env_exemple
      (fenetre_neuve\<lparr>cache_images := [''Base_create.png'' \<mapsto> 1]\<rparr>)"
    by simp
  have dans: "cache_images (fenetre_neuve\<lparr>cache_images := [''Base_create.png'' \<mapsto> 1]\<rparr>)
        ''Base_create.png'' = Some 1"
    by simp
  from rien att dans
    cache_images_charges [of env_exemple "''photo.jpg''" None fenetre_neuve]
    cache_images_charges [of env_exemple _ _
      "fenetre_neuve\<lparr>cache_images := [''Base_create.png'' \<mapsto> 1]\<rparr>" "''Base_create.png''" 1]
  show ?thesis by simp
qed

section \<open>Search by name\<close>









end
